theory Spec2Isabelle
  imports Main
begin

text \<open>
  A model of \<^verbatim>\<open>src/server.js\<close>: an Express application with one module variable,
  \<^verbatim>\<open>githubAccessToken\<close>, and six routes. Each handler is a function from its
  surroundings (environment variables and network), the request and the state to a
  response, a new state and the list of its effects. A \<^verbatim>\<open>try\<close> block is a function
  to a sum, the exception on the left; the \<^verbatim>\<open>catch\<close> is the case on that sum.
\<close>

section \<open>JavaScript values\<close>

text \<open>
  The handlers of \<^verbatim>\<open>src/server.js\<close> pass around values produced by
  \<^verbatim>\<open>JSON.parse\<close> (the bodies of upstream responses), by the query-string parser
  (\<^verbatim>\<open>req.query\<close>) and the two constants \<^verbatim>\<open>null\<close> and \<^verbatim>\<open>undefined\<close>.
  An object is the list of its own properties in enumeration order; a lookup takes the
  first entry of a name. A Number is identified with the decimal text that the
  language's number-to-string conversion gives for it (\<open>''1''\<close>, \<open>''0.5''\<close>,
  \<open>''Infinity''\<close>, \<open>''NaN''\<close>); positive and negative zero both print as \<open>''0''\<close>, and
  nothing the handlers do to a number (truth test, template literal, serialisation)
  tells them apart. Strings are byte strings (UTF-8).
\<close>

datatype jsval =
    JUndefined
  | JNull
  | JBool bool
  | JNum string
  | JStr string
  | JArr "jsval list"
  | JObj "(string \<times> jsval) list"

text \<open>The truth test of \<^verbatim>\<open>if (v)\<close>, \<^verbatim>\<open>!v\<close> and \<^verbatim>\<open>a || b\<close>.\<close>

fun truthy :: "jsval \<Rightarrow> bool" where
  "truthy JUndefined = False"
| "truthy JNull = False"
| "truthy (JBool b) = b"
| "truthy (JNum n) = (n \<noteq> ''0'' \<and> n \<noteq> ''NaN'')"
| "truthy (JStr s) = (s \<noteq> [])"
| "truthy (JArr vs) = True"
| "truthy (JObj kvs) = True"

text \<open>\<^verbatim>\<open>a || b\<close>\<close>

definition js_or :: "jsval \<Rightarrow> jsval \<Rightarrow> jsval" where
  "js_or a b = (if truthy a then a else b)"

text \<open>Exceptions that the handlers' \<^verbatim>\<open>try\<close> blocks can catch.\<close>

datatype exn =
    FetchError    \<comment> \<open>\<^verbatim>\<open>fetch\<close> rejected: network failure or a request it refuses\<close>
  | SyntaxError   \<comment> \<open>\<^verbatim>\<open>response.json()\<close> rejected: the body is not JSON\<close>
  | TypeError     \<comment> \<open>property read on \<^verbatim>\<open>null\<close>, or an object with no string conversion\<close>

text \<open>
  \<^verbatim>\<open>v.name\<close> for a name that no built-in prototype defines (the source reads
  \<^verbatim>\<open>error\<close>, \<^verbatim>\<open>error_description\<close>, \<^verbatim>\<open>access_token\<close> and \<^verbatim>\<open>code\<close>): the own
  property of an object, \<^verbatim>\<open>undefined\<close> on any other value, and a TypeError on
  \<^verbatim>\<open>null\<close> and \<^verbatim>\<open>undefined\<close>.
\<close>

definition own_prop :: "(string \<times> jsval) list \<Rightarrow> string \<Rightarrow> jsval" where
  "own_prop kvs k = (case map_of kvs k of None \<Rightarrow> JUndefined | Some v \<Rightarrow> v)"

fun get_prop :: "jsval \<Rightarrow> string \<Rightarrow> exn + jsval" where
  "get_prop JUndefined k = Inl TypeError"
| "get_prop JNull k = Inl TypeError"
| "get_prop (JObj kvs) k = Inr (own_prop kvs k)"
| "get_prop v k = Inr JUndefined"

text \<open>Joining strings with a separator (\<^verbatim>\<open>Array.prototype.join\<close>).\<close>

fun join_with :: "string \<Rightarrow> string list \<Rightarrow> string" where
  "join_with sep [] = []"
| "join_with sep [x] = x"
| "join_with sep (x # y # ys) = x @ sep @ join_with sep (y # ys)"

text \<open>
  The string conversion of a template literal \<^verbatim>\<open>`${v}`\<close>. An array joins the
  conversions of its elements with commas, \<^verbatim>\<open>null\<close> and \<^verbatim>\<open>undefined\<close> elements
  giving the empty string. A parsed object inherits \<^verbatim>\<open>Object.prototype.toString\<close>
  unless it has an own property of that name, which is never callable, and then the
  conversion throws.
\<close>

fun ToString :: "jsval \<Rightarrow> exn + string"
  and ToString_elems :: "jsval list \<Rightarrow> exn + string list" where
  "ToString JUndefined = Inr ''undefined''"
| "ToString JNull = Inr ''null''"
| "ToString (JBool b) = Inr (if b then ''true'' else ''false'')"
| "ToString (JNum n) = Inr n"
| "ToString (JStr s) = Inr s"
| "ToString (JArr vs) =
     (case ToString_elems vs of Inl e \<Rightarrow> Inl e | Inr ss \<Rightarrow> Inr (join_with '','' ss))"
| "ToString (JObj kvs) =
     (if map_of kvs ''toString'' = None then Inr ''[object Object]'' else Inl TypeError)"
| "ToString_elems [] = Inr []"
| "ToString_elems (v # vs) =
     (case (if v = JUndefined \<or> v = JNull then Inr [] else ToString v) of
        Inl e \<Rightarrow> Inl e
      | Inr s \<Rightarrow> (case ToString_elems vs of Inl e \<Rightarrow> Inl e | Inr ss \<Rightarrow> Inr (s # ss)))"

subsection \<open>\<^verbatim>\<open>JSON.stringify\<close>\<close>

definition hex_digit :: "nat \<Rightarrow> char" where
  "hex_digit n = ''0123456789abcdef'' ! (n mod 16)"

text \<open>The escape of one character inside a quoted JSON string.\<close>

definition json_escape :: "char \<Rightarrow> string" where
  "json_escape c =
     (if c = CHR 0x22 then [CHR 0x5C, CHR 0x22]
      else if c = CHR 0x5C then [CHR 0x5C, CHR 0x5C]
      else if c = CHR 0x08 then [CHR 0x5C, CHR ''b'']
      else if c = CHR 0x0C then [CHR 0x5C, CHR ''f'']
      else if c = CHR 0x0A then [CHR 0x5C, CHR ''n'']
      else if c = CHR 0x0D then [CHR 0x5C, CHR ''r'']
      else if c = CHR 0x09 then [CHR 0x5C, CHR ''t'']
      else if of_char c < (0x20 :: nat)
        then [CHR 0x5C, CHR ''u'', CHR ''0'', CHR ''0'',
              hex_digit (of_char c div 16), hex_digit (of_char c)]
      else [c])"

definition json_quote :: "string \<Rightarrow> string" where
  "json_quote s = [CHR 0x22] @ concat (map json_escape s) @ [CHR 0x22]"

text \<open>
  \<^verbatim>\<open>JSON.stringify(v)\<close>: \<open>None\<close> is the result \<^verbatim>\<open>undefined\<close>. A property whose
  value is \<^verbatim>\<open>undefined\<close> is left out of an object; an \<^verbatim>\<open>undefined\<close> array element
  is written \<^verbatim>\<open>null\<close>, and so is a number that is not finite.
\<close>

fun json_stringify :: "jsval \<Rightarrow> string option"
  and stringify_elems :: "jsval list \<Rightarrow> string list"
  and stringify_members :: "(string \<times> jsval) list \<Rightarrow> string list" where
  "json_stringify JUndefined = None"
| "json_stringify JNull = Some ''null''"
| "json_stringify (JBool b) = Some (if b then ''true'' else ''false'')"
| "json_stringify (JNum n) =
     Some (if n = ''Infinity'' \<or> n = ''-Infinity'' \<or> n = ''NaN'' then ''null'' else n)"
| "json_stringify (JStr s) = Some (json_quote s)"
| "json_stringify (JArr vs) = Some (''['' @ join_with '','' (stringify_elems vs) @ '']'')"
| "json_stringify (JObj kvs) = Some (''{'' @ join_with '','' (stringify_members kvs) @ ''}'')"
| "stringify_elems [] = []"
| "stringify_elems (v # vs) =
     (case json_stringify v of None \<Rightarrow> ''null'' | Some s \<Rightarrow> s) # stringify_elems vs"
| "stringify_members [] = []"
| "stringify_members ((k, v) # kvs) =
     (case json_stringify v of
        None \<Rightarrow> stringify_members kvs
      | Some s \<Rightarrow> (json_quote k @ '':'' @ s) # stringify_members kvs)"

section \<open>The server and its surroundings\<close>

text \<open>
  The one piece of state the handlers share: the module variable
  \<^verbatim>\<open>githubAccessToken\<close>, \<^verbatim>\<open>null\<close> when the process starts.
\<close>

record state =
  githubAccessToken :: jsval

definition initial_state :: state where
  "initial_state = \<lparr>githubAccessToken = JNull\<rparr>"

text \<open>A request handed to \<^verbatim>\<open>fetch\<close>, and what \<^verbatim>\<open>fetch\<close> resolves to.\<close>

record outbound =
  out_url :: string
  out_method :: string
  out_headers :: "(string \<times> string) list"
  out_body :: "string option"

record upstream_response =
  up_status :: nat
  up_json :: "exn + jsval"   \<comment> \<open>the result of \<^verbatim>\<open>.json()\<close>\<close>

text \<open>
  What a handler finds around it: the module constant \<^verbatim>\<open>BASE_URL\<close>, computed once
  when the module was loaded, the environment variables as they are at the moment of
  the call, and the network. The network is a function from the request to what
  \<^verbatim>\<open>fetch\<close> does with it.
\<close>

record host =
  BASE_URL :: string
  process_env :: "string \<Rightarrow> string option"
  fetch :: "outbound \<Rightarrow> exn + upstream_response"

definition env_var :: "host \<Rightarrow> string \<Rightarrow> jsval" where
  "env_var h name = (case process_env h name of None \<Rightarrow> JUndefined | Some v \<Rightarrow> JStr v)"

text \<open>
  The request as it reaches a handler, after the \<^verbatim>\<open>cors\<close> and \<^verbatim>\<open>express.json\<close>
  middleware: the parsed query string and the parsed body.
\<close>

record request =
  req_query :: "(string \<times> jsval) list"
  req_body :: jsval

text \<open>
  The response object, as the calls of a handler leave it. \<open>headers\<close> holds the
  names and values the handler passes to \<^verbatim>\<open>res.set\<close>; \<open>chunks\<close> what it writes
  with \<^verbatim>\<open>res.write\<close>; \<open>finished\<close> is what it hands to \<^verbatim>\<open>res.send\<close>,
  \<^verbatim>\<open>res.json\<close> or \<^verbatim>\<open>res.redirect\<close>, and \<open>None\<close> while the response is still
  open. What the framework adds on its own (a character set, a content length) is not
  recorded.
\<close>

datatype payload = Text string | Json jsval | Redirect string

record response =
  statusCode :: nat
  headers :: "(string \<times> string) list"
  flushed :: bool
  chunks :: "string list"
  finished :: "payload option"

definition res0 :: response where
  "res0 = \<lparr>statusCode = 200, headers = [], flushed = False, chunks = [], finished = None\<rparr>"

definition res_status :: "nat \<Rightarrow> response \<Rightarrow> response" where
  "res_status n r = r\<lparr>statusCode := n\<rparr>"

definition res_set :: "(string \<times> string) list \<Rightarrow> response \<Rightarrow> response" where
  "res_set hs r = r\<lparr>headers := headers r @ hs\<rparr>"

definition res_flushHeaders :: "response \<Rightarrow> response" where
  "res_flushHeaders r = r\<lparr>flushed := True\<rparr>"

definition res_write :: "string \<Rightarrow> response \<Rightarrow> response" where
  "res_write c r = r\<lparr>flushed := True, chunks := chunks r @ [c]\<rparr>"

definition res_send :: "string \<Rightarrow> response \<Rightarrow> response" where
  "res_send b r = r\<lparr>finished := Some (Text b)\<rparr>"

definition res_json :: "jsval \<Rightarrow> response \<Rightarrow> response" where
  "res_json v r = r\<lparr>finished := Some (Json v)\<rparr>"

definition res_redirect :: "string \<Rightarrow> response \<Rightarrow> response" where
  "res_redirect u r = r\<lparr>statusCode := 302, finished := Some (Redirect u)\<rparr>"

text \<open>
  The text of the body that the handler gave: the string of \<^verbatim>\<open>res.send\<close>, and for
  \<^verbatim>\<open>res.json(v)\<close> the text \<^verbatim>\<open>JSON.stringify(v)\<close> (an empty body when that is
  \<^verbatim>\<open>undefined\<close>). \<open>None\<close> when the handler gave no body of its own: a redirect,
  or a response still open.
\<close>

definition json_body :: "jsval \<Rightarrow> string" where
  "json_body v = (case json_stringify v of None \<Rightarrow> [] | Some t \<Rightarrow> t)"

definition body_text :: "response \<Rightarrow> string option" where
  "body_text r =
     (case finished r of
        Some (Text b) \<Rightarrow> Some b
      | Some (Json v) \<Rightarrow> Some (json_body v)
      | _ \<Rightarrow> None)"

text \<open>What a handler does besides answering: calls of \<^verbatim>\<open>fetch\<close> and console output.\<close>

datatype effect =
    Fetch outbound
  | ConsoleLog string
  | ConsoleError string exn

record outcome =
  reply :: response
  store :: state
  trace :: "effect list"

definition fetches :: "effect list \<Rightarrow> outbound list" where
  "fetches es = concat (map (\<lambda>e. case e of Fetch rq \<Rightarrow> [rq] | _ \<Rightarrow> []) es)"

section \<open>Handlers\<close>

subsection \<open>\<^verbatim>\<open>GET /auth/github\<close>\<close>

text \<open>
  \<^verbatim>\<open>URLSearchParams.toString()\<close>: each byte of a name or value stays as it is when
  it is an ASCII letter, a digit or one of \<^verbatim>\<open>*-._\<close>, a space becomes \<^verbatim>\<open>+\<close>, and
  every other byte becomes \<^verbatim>\<open>%XX\<close> in upper-case hexadecimal.
\<close>

definition HEX_digit :: "nat \<Rightarrow> char" where
  "HEX_digit n = ''0123456789ABCDEF'' ! (n mod 16)"

definition form_encode_byte :: "char \<Rightarrow> string" where
  "form_encode_byte c =
     (if c \<in> set ''ABCDEFGHIJKLMNOPQRSTUVWXYZabcdefghijklmnopqrstuvwxyz0123456789*-._''
        then [c]
      else if c = CHR '' '' then ''+''
      else [CHR ''%'', HEX_digit (of_char c div 16), HEX_digit (of_char c)])"

definition form_encode :: "string \<Rightarrow> string" where
  "form_encode s = concat (map form_encode_byte s)"

definition URLSearchParams_toString :: "(string \<times> string) list \<Rightarrow> string" where
  "URLSearchParams_toString ps =
     join_with ''&'' (map (\<lambda>(k, v). form_encode k @ ''='' @ form_encode v) ps)"

text \<open>
  The value the module gives \<^verbatim>\<open>BASE_URL\<close> when it is loaded, from the environment
  of that moment:
  \<^verbatim>\<open>process.env.BASE_URL || `http://localhost:${process.env.PORT || 10000}`\<close>.
  It is not computed again; a handler reads the constant.
\<close>

definition load_BASE_URL :: "(string \<Rightarrow> string option) \<Rightarrow> string" where
  "load_BASE_URL env =
     (case env ''BASE_URL'' of
        Some (c # cs) \<Rightarrow> c # cs
      | _ \<Rightarrow> ''http://localhost:'' @
          (case env ''PORT'' of Some (c # cs) \<Rightarrow> c # cs | _ \<Rightarrow> ''10000''))"

definition auth_github :: "host \<Rightarrow> request \<Rightarrow> state \<Rightarrow> outcome" where
  "auth_github h req s =
     (case process_env h ''GITHUB_CLIENT_ID'' of
        Some (c # cs) \<Rightarrow>
          (let clientId = c # cs;
               scopes = join_with '' '' [''repo'', ''read:user''];
               params = [(''client_id'', clientId),
                         (''redirect_uri'', BASE_URL h @ ''/auth/github/callback''),
                         (''scope'', scopes),
                         (''allow_signup'', ''true'')]
           in \<lparr>reply = res_redirect (''https://github.com/login/oauth/authorize?'' @
                           URLSearchParams_toString params) res0,
               store = s, trace = []\<rparr>)
      | _ \<Rightarrow>
          \<lparr>reply = res_send ''GitHub client ID not configured'' (res_status 500 res0),
           store = s, trace = []\<rparr>)"

subsection \<open>\<^verbatim>\<open>GET /auth/github/callback\<close>\<close>

definition token_request :: "jsval \<Rightarrow> jsval \<Rightarrow> jsval \<Rightarrow> outbound" where
  "token_request clientId clientSecret code =
     \<lparr>out_url = ''https://github.com/login/oauth/access_token'',
      out_method = ''POST'',
      out_headers = [(''Accept'', ''application/json''),
                     (''Content-Type'', ''application/json'')],
      out_body = json_stringify (JObj [(''client_id'', clientId),
                                        (''client_secret'', clientSecret),
                                        (''code'', code)])\<rparr>"

text \<open>
  The body of the \<^verbatim>\<open>try\<close> block: the effects up to the point it returns or throws,
  and either the exception or the response with the new state.
\<close>

definition callback_try ::
  "host \<Rightarrow> jsval \<Rightarrow> jsval \<Rightarrow> jsval \<Rightarrow> state \<Rightarrow> effect list \<times> (exn + response \<times> state)" where
  "callback_try h clientId clientSecret code s =
     (let rq = token_request clientId clientSecret code in
      case fetch h rq of
        Inl e \<Rightarrow> ([Fetch rq], Inl e)
      | Inr tokenRes \<Rightarrow>
          (case up_json tokenRes of
             Inl e \<Rightarrow> ([Fetch rq], Inl e)
           | Inr data \<Rightarrow>
               (case get_prop data ''error'' of
                  Inl e \<Rightarrow> ([Fetch rq], Inl e)
                | Inr err \<Rightarrow>
                    if truthy err then
                      (case get_prop data ''error_description'' of
                         Inl e \<Rightarrow> ([Fetch rq], Inl e)
                       | Inr descr \<Rightarrow>
                           ([Fetch rq],
                            Inr (res_json (JObj [(''error'', js_or descr err)])
                                   (res_status 400 res0), s)))
                    else
                      (case get_prop data ''access_token'' of
                         Inl e \<Rightarrow> ([Fetch rq], Inl e)
                       | Inr tok \<Rightarrow>
                           ([Fetch rq, ConsoleLog ''GitHub OAuth successful, token acquired''],
                            Inr (res_send ''GitHub OAuth success! You can close this tab.'' res0,
                                 s\<lparr>githubAccessToken := tok\<rparr>))))))"

definition callback :: "host \<Rightarrow> request \<Rightarrow> state \<Rightarrow> outcome" where
  "callback h req s =
     (let code = own_prop (req_query req) ''code'' in
      if \<not> truthy code then
        \<lparr>reply = res_send ''Missing OAuth code'' (res_status 400 res0), store = s, trace = []\<rparr>
      else
        let clientId = env_var h ''GITHUB_CLIENT_ID'';
            clientSecret = env_var h ''GITHUB_CLIENT_SECRET''
        in if \<not> truthy clientId \<or> \<not> truthy clientSecret then
             \<lparr>reply = res_send ''GitHub client credentials not configured'' (res_status 500 res0),
              store = s, trace = []\<rparr>
           else
             (case callback_try h clientId clientSecret code s of
                (es, Inr (r, s')) \<Rightarrow> \<lparr>reply = r, store = s', trace = es\<rparr>
              | (es, Inl err) \<Rightarrow>
                  \<lparr>reply = res_send ''Failed to retrieve access token'' (res_status 500 res0),
                   store = s,
                   trace = es @ [ConsoleError ''Error exchanging GitHub code for token'' err]\<rparr>))"

subsection \<open>Discovery: \<^verbatim>\<open>GET /sse\<close> and \<^verbatim>\<open>GET /\<close>\<close>

text \<open>
  The template literal \<^verbatim>\<open>`data: ${JSON.stringify(payload)}\n\n`\<close>; a result
  \<^verbatim>\<open>undefined\<close> of \<^verbatim>\<open>JSON.stringify\<close> would print as that word.
\<close>

definition sse_frame :: "string option \<Rightarrow> string" where
  "sse_frame j =
     ''data: '' @ (case j of None \<Rightarrow> ''undefined'' | Some t \<Rightarrow> t) @ [CHR 0x0A, CHR 0x0A]"

text \<open>
  The constants \<^verbatim>\<open>tools\<close> and \<^verbatim>\<open>payload\<close> of each of the two handlers; the
  source writes them out twice, and so does the model.
\<close>

definition sse_tools :: jsval where
  "sse_tools = JObj
     [(''listRepos'', JObj
         [(''description'', JStr ''List the authenticated user's GitHub repositories''),
          (''parameters'', JObj [(''type'', JStr ''object''),
                                 (''properties'', JObj []),
                                 (''required'', JArr [])])]),
      (''getUser'', JObj
         [(''description'', JStr ''Get the authenticated user's GitHub profile information''),
          (''parameters'', JObj [(''type'', JStr ''object''),
                                 (''properties'', JObj []),
                                 (''required'', JArr [])])])]"

definition sse_payload :: jsval where
  "sse_payload = JObj [(''message'', JStr ''GitHub tools ready''), (''tools'', sse_tools)]"

definition get_sse :: "host \<Rightarrow> request \<Rightarrow> state \<Rightarrow> outcome" where
  "get_sse h req s =
     (let r1 = res_set [(''Content-Type'', ''text/event-stream''),
                        (''Cache-Control'', ''no-cache''),
                        (''Connection'', ''keep-alive'')] res0;
          r2 = res_flushHeaders r1
      in \<lparr>reply = res_write (sse_frame (json_stringify sse_payload)) r2,
          store = s, trace = []\<rparr>)"

definition root_tools :: jsval where
  "root_tools = JObj
     [(''listRepos'', JObj
         [(''description'', JStr ''List the authenticated user's GitHub repositories''),
          (''parameters'', JObj [(''type'', JStr ''object''),
                                 (''properties'', JObj []),
                                 (''required'', JArr [])])]),
      (''getUser'', JObj
         [(''description'', JStr ''Get the authenticated user's GitHub profile information''),
          (''parameters'', JObj [(''type'', JStr ''object''),
                                 (''properties'', JObj []),
                                 (''required'', JArr [])])])]"

definition root_payload :: jsval where
  "root_payload = JObj [(''message'', JStr ''GitHub tools ready''), (''tools'', root_tools)]"

definition get_root :: "host \<Rightarrow> request \<Rightarrow> state \<Rightarrow> outcome" where
  "get_root h req s =
     (let r1 = res_set [(''Content-Type'', ''text/event-stream''),
                        (''Cache-Control'', ''no-cache''),
                        (''Connection'', ''keep-alive'')] res0;
          r2 = res_flushHeaders r1
      in \<lparr>reply = res_write (sse_frame (json_stringify root_payload)) r2,
          store = s, trace = []\<rparr>)"

subsection \<open>Tool invocation: \<^verbatim>\<open>POST /listRepos\<close> and \<^verbatim>\<open>POST /getUser\<close>\<close>

text \<open>The request that \<^verbatim>\<open>fetch(url, {headers: {...}})\<close> makes; no method means GET.\<close>

definition api_request :: "string \<Rightarrow> string \<Rightarrow> outbound" where
  "api_request u t =
     \<lparr>out_url = u, out_method = ''GET'',
      out_headers = [(''Authorization'', ''token '' @ t), (''User-Agent'', ''mcp-server'')],
      out_body = None\<rparr>"

definition listRepos_try :: "host \<Rightarrow> state \<Rightarrow> effect list \<times> (exn + response)" where
  "listRepos_try h s =
     (case ToString (githubAccessToken s) of
        Inl e \<Rightarrow> ([], Inl e)
      | Inr t \<Rightarrow>
          (let rq = api_request ''https://api.github.com/user/repos'' t in
           case fetch h rq of
             Inl e \<Rightarrow> ([Fetch rq], Inl e)
           | Inr ghRes \<Rightarrow>
               (case up_json ghRes of
                  Inl e \<Rightarrow> ([Fetch rq], Inl e)
                | Inr repos \<Rightarrow> ([Fetch rq], Inr (res_json repos res0)))))"

definition listRepos :: "host \<Rightarrow> request \<Rightarrow> state \<Rightarrow> outcome" where
  "listRepos h req s =
     (if \<not> truthy (githubAccessToken s) then
        \<lparr>reply = res_json (JObj [(''error'', JStr ''GitHub OAuth required'')]) (res_status 401 res0),
         store = s, trace = []\<rparr>
      else
        (case listRepos_try h s of
           (es, Inr r) \<Rightarrow> \<lparr>reply = r, store = s, trace = es\<rparr>
         | (es, Inl err) \<Rightarrow>
             \<lparr>reply = res_json (JObj [(''error'', JStr ''Failed to fetch repositories'')])
                        (res_status 500 res0),
              store = s,
              trace = es @ [ConsoleError ''Error fetching GitHub repos'' err]\<rparr>))"

definition getUser_try :: "host \<Rightarrow> state \<Rightarrow> effect list \<times> (exn + response)" where
  "getUser_try h s =
     (case ToString (githubAccessToken s) of
        Inl e \<Rightarrow> ([], Inl e)
      | Inr t \<Rightarrow>
          (let rq = api_request ''https://api.github.com/user'' t in
           case fetch h rq of
             Inl e \<Rightarrow> ([Fetch rq], Inl e)
           | Inr ghRes \<Rightarrow>
               (case up_json ghRes of
                  Inl e \<Rightarrow> ([Fetch rq], Inl e)
                | Inr user \<Rightarrow> ([Fetch rq], Inr (res_json user res0)))))"

definition getUser :: "host \<Rightarrow> request \<Rightarrow> state \<Rightarrow> outcome" where
  "getUser h req s =
     (if \<not> truthy (githubAccessToken s) then
        \<lparr>reply = res_json (JObj [(''error'', JStr ''GitHub OAuth required'')]) (res_status 401 res0),
         store = s, trace = []\<rparr>
      else
        (case getUser_try h s of
           (es, Inr r) \<Rightarrow> \<lparr>reply = r, store = s, trace = es\<rparr>
         | (es, Inl err) \<Rightarrow>
             \<lparr>reply = res_json (JObj [(''error'', JStr ''Failed to fetch user'')])
                        (res_status 500 res0),
              store = s,
              trace = es @ [ConsoleError ''Error fetching GitHub user'' err]\<rparr>))"

subsection \<open>The routes\<close>

text \<open>The calls of \<^verbatim>\<open>app.get\<close> and \<^verbatim>\<open>app.post\<close>, in the order of the file.\<close>

definition routes :: "(string \<times> string \<times> (host \<Rightarrow> request \<Rightarrow> state \<Rightarrow> outcome)) list" where
  "routes =
     [(''GET'', ''/auth/github'', auth_github),
      (''GET'', ''/auth/github/callback'', callback),
      (''GET'', ''/sse'', get_sse),
      (''GET'', ''/'', get_root),
      (''POST'', ''/listRepos'', listRepos),
      (''POST'', ''/getUser'', getUser)]"

text \<open>The names a tools object advertises (\<^verbatim>\<open>Object.keys\<close>).\<close>

fun object_keys :: "jsval \<Rightarrow> string list" where
  "object_keys (JObj kvs) = map fst kvs"
| "object_keys v = []"

text \<open>The handlers registered with \<^verbatim>\<open>app.post\<close>, and the paths they are registered on.\<close>

definition post_routes :: "(string \<times> (host \<Rightarrow> request \<Rightarrow> state \<Rightarrow> outcome)) list" where
  "post_routes = map snd (filter (\<lambda>r. fst r = ''POST'') routes)"

definition invocation_handlers :: "(host \<Rightarrow> request \<Rightarrow> state \<Rightarrow> outcome) list" where
  "invocation_handlers = map snd post_routes"

text \<open>
  Requests handled one after the other, each by the handler it was routed to and in
  the surroundings of its moment; the state left by one is the state the next finds.
\<close>

fun run ::
  "((host \<Rightarrow> request \<Rightarrow> state \<Rightarrow> outcome) \<times> host \<times> request) list \<Rightarrow> state \<Rightarrow> outcome list" where
  "run [] s = []"
| "run ((f, h, req) # cs) s = (let out = f h req s in out # run cs (store out))"

text \<open>The \<^verbatim>\<open>Authorization\<close> headers of the calls of \<^verbatim>\<open>fetch\<close> in a trace.\<close>

definition authorizations :: "outcome \<Rightarrow> string option list" where
  "authorizations out = map (\<lambda>rq. map_of (out_headers rq) ''Authorization'') (fetches (trace out))"

subsection \<open>Names for what the callback looks at\<close>

text \<open>
  \<^verbatim>\<open>code\<close> passes the test \<^verbatim>\<open>!code\<close>; both environment variables pass theirs;
  and the request that the callback then hands to \<^verbatim>\<open>fetch\<close>.
\<close>

definition has_code :: "request \<Rightarrow> bool" where
  "has_code req = truthy (own_prop (req_query req) ''code'')"

definition configured :: "host \<Rightarrow> bool" where
  "configured h =
     (truthy (env_var h ''GITHUB_CLIENT_ID'') \<and> truthy (env_var h ''GITHUB_CLIENT_SECRET''))"

definition exchange_request :: "host \<Rightarrow> request \<Rightarrow> outbound" where
  "exchange_request h req =
     token_request (env_var h ''GITHUB_CLIENT_ID'') (env_var h ''GITHUB_CLIENT_SECRET'')
       (own_prop (req_query req) ''code'')"

text \<open>A value has a field of a name when it is an object with an own property of it.\<close>

definition has_field :: "jsval \<Rightarrow> string \<Rightarrow> bool" where
  "has_field v k = (k \<in> set (object_keys v))"

text \<open>The tool names in a discovery payload: the keys of its \<^verbatim>\<open>tools\<close> object.\<close>

definition advertised_tools :: "jsval \<Rightarrow> string list" where
  "advertised_tools payload =
     (case payload of JObj kvs \<Rightarrow> object_keys (own_prop kvs ''tools'') | _ \<Rightarrow> [])"

subsection \<open>Concrete surroundings for the examples\<close>

definition env_of :: "(string \<times> string) list \<Rightarrow> string \<Rightarrow> string option" where
  "env_of kvs = map_of kvs"

definition fetch_answers :: "exn + jsval \<Rightarrow> outbound \<Rightarrow> exn + upstream_response" where
  "fetch_answers j rq = Inr \<lparr>up_status = 200, up_json = j\<rparr>"

definition configured_host :: "exn + jsval \<Rightarrow> host" where
  "configured_host j =
     \<lparr>BASE_URL = load_BASE_URL (env_of [(''BASE_URL'', ''https://mcp.example.org'')]),
      process_env = env_of [(''GITHUB_CLIENT_ID'', ''Iv1.abc''), (''GITHUB_CLIENT_SECRET'', ''s3cret'')],
      fetch = fetch_answers j\<rparr>"

definition unconfigured_host :: host where
  "unconfigured_host =
     \<lparr>BASE_URL = load_BASE_URL (env_of []), process_env = env_of [],
      fetch = fetch_answers (Inl SyntaxError)\<rparr>"

definition request_with_code :: "string \<Rightarrow> request" where
  "request_with_code c = \<lparr>req_query = [(''code'', JStr c)], req_body = JUndefined\<rparr>"

definition plain_request :: request where
  "plain_request = \<lparr>req_query = [], req_body = JObj []\<rparr>"

definition falsy_error_body :: jsval where
  "falsy_error_body = JObj [(''error'', JBool False), (''access_token'', JStr ''gho_new'')]"

text \<open>
  What \<^verbatim>\<open>JSON.parse\<close> gives for the text \<^verbatim>\<open>[1e400]\<close>, whose number is beyond the
  range of a double, and what it gives for the text \<^verbatim>\<open>[null]\<close>.
\<close>

definition overflow_list_example :: jsval where
  "overflow_list_example = JArr [JNum ''Infinity'']"

definition null_list_example :: jsval where
  "null_list_example = JArr [JNull]"

definition repo_list_example :: jsval where
  "repo_list_example = JArr [JObj [(''id'', JNum ''1''), (''name'', JStr ''repo-a'')]]"

section \<open>The handlers, fact by fact\<close>

lemma listRepos_unauthenticated:
  "\<not> truthy (githubAccessToken s) \<Longrightarrow>
   listRepos h req s =
     \<lparr>reply = res_json (JObj [(''error'', JStr ''GitHub OAuth required'')]) (res_status 401 res0),
      store = s, trace = []\<rparr>"
  by (simp add: listRepos_def)

lemma getUser_unauthenticated:
  "\<not> truthy (githubAccessToken s) \<Longrightarrow>
   getUser h req s =
     \<lparr>reply = res_json (JObj [(''error'', JStr ''GitHub OAuth required'')]) (res_status 401 res0),
      store = s, trace = []\<rparr>"
  by (simp add: getUser_def)

lemma reply_json:
  "statusCode (res_json v (res_status n res0)) = n"
  "finished (res_json v (res_status n res0)) = Some (Json v)"
  by (simp_all add: res_json_def res_status_def res0_def)

lemma callback_missing_code:
  "\<not> has_code req \<Longrightarrow>
   callback h req s =
     \<lparr>reply = res_send ''Missing OAuth code'' (res_status 400 res0), store = s, trace = []\<rparr>"
  by (simp add: callback_def has_code_def)

lemma callback_unconfigured:
  "has_code req \<Longrightarrow> \<not> configured h \<Longrightarrow>
   callback h req s =
     \<lparr>reply = res_send ''GitHub client credentials not configured'' (res_status 500 res0),
      store = s, trace = []\<rparr>"
  by (auto simp add: callback_def has_code_def configured_def Let_def)

lemma callback_exchange:
  "has_code req \<Longrightarrow> configured h \<Longrightarrow>
   callback h req s =
     (case callback_try h (env_var h ''GITHUB_CLIENT_ID'') (env_var h ''GITHUB_CLIENT_SECRET'')
             (own_prop (req_query req) ''code'') s of
        (es, Inr (r, s')) \<Rightarrow> \<lparr>reply = r, store = s', trace = es\<rparr>
      | (es, Inl err) \<Rightarrow>
          \<lparr>reply = res_send ''Failed to retrieve access token'' (res_status 500 res0),
           store = s,
           trace = es @ [ConsoleError ''Error exchanging GitHub code for token'' err]\<rparr>)"
  by (simp add: callback_def has_code_def configured_def Let_def)

lemma callback_upstream_error:
  assumes "has_code req" "configured h"
    and "fetch h (exchange_request h req) = Inr tokenRes"
    and "up_json tokenRes = Inr (JObj kvs)"
    and "truthy (own_prop kvs ''error'')"
  shows "callback h req s =
     \<lparr>reply = res_json (JObj [(''error'',
                 js_or (own_prop kvs ''error_description'') (own_prop kvs ''error''))])
               (res_status 400 res0),
      store = s, trace = [Fetch (exchange_request h req)]\<rparr>"
  using assms
  by (simp add: callback_exchange callback_try_def exchange_request_def Let_def)

lemma callback_granted:
  assumes "has_code req" "configured h"
    and "fetch h (exchange_request h req) = Inr tokenRes"
    and "up_json tokenRes = Inr (JObj kvs)"
    and "\<not> truthy (own_prop kvs ''error'')"
  shows "callback h req s =
     \<lparr>reply = res_send ''GitHub OAuth success! You can close this tab.'' res0,
      store = s\<lparr>githubAccessToken := own_prop kvs ''access_token''\<rparr>,
      trace = [Fetch (exchange_request h req),
               ConsoleLog ''GitHub OAuth successful, token acquired'']\<rparr>"
  using assms
  by (simp add: callback_exchange callback_try_def exchange_request_def Let_def)

lemma callback_null_body:
  assumes "has_code req" "configured h"
    and "fetch h (exchange_request h req) = Inr tokenRes"
    and "up_json tokenRes = Inr JNull"
  shows "callback h req s =
     \<lparr>reply = res_send ''Failed to retrieve access token'' (res_status 500 res0),
      store = s,
      trace = [Fetch (exchange_request h req),
               ConsoleError ''Error exchanging GitHub code for token'' TypeError]\<rparr>"
  using assms
  by (simp add: callback_exchange callback_try_def exchange_request_def Let_def)

lemma reply_send:
  "statusCode (res_send b (res_status n res0)) = n"
  "finished (res_send b (res_status n res0)) = Some (Text b)"
  "statusCode (res_send b res0) = 200"
  "finished (res_send b res0) = Some (Text b)"
  by (simp_all add: res_send_def res_status_def res0_def)

lemma invoke_listRepos:
  assumes "truthy (githubAccessToken s)" "ToString (githubAccessToken s) = Inr t"
  shows "listRepos h req s =
    (case fetch h (api_request ''https://api.github.com/user/repos'' t) of
       Inl e \<Rightarrow> \<lparr>reply = res_json (JObj [(''error'', JStr ''Failed to fetch repositories'')]) (res_status 500 res0), store = s,
          trace = [Fetch (api_request ''https://api.github.com/user/repos'' t), ConsoleError ''Error fetching GitHub repos'' e]\<rparr>
     | Inr ghRes \<Rightarrow> (case up_json ghRes of
          Inl e \<Rightarrow> \<lparr>reply = res_json (JObj [(''error'', JStr ''Failed to fetch repositories'')]) (res_status 500 res0), store = s,
          trace = [Fetch (api_request ''https://api.github.com/user/repos'' t), ConsoleError ''Error fetching GitHub repos'' e]\<rparr>
        | Inr repos \<Rightarrow> \<lparr>reply = res_json repos res0, store = s, trace = [Fetch (api_request ''https://api.github.com/user/repos'' t)]\<rparr>))"
  using assms
  by (simp add: listRepos_def listRepos_try_def Let_def split: sum.splits)

lemma invoke_getUser:
  assumes "truthy (githubAccessToken s)" "ToString (githubAccessToken s) = Inr t"
  shows "getUser h req s =
    (case fetch h (api_request ''https://api.github.com/user'' t) of
       Inl e \<Rightarrow> \<lparr>reply = res_json (JObj [(''error'', JStr ''Failed to fetch user'')]) (res_status 500 res0), store = s,
          trace = [Fetch (api_request ''https://api.github.com/user'' t), ConsoleError ''Error fetching GitHub user'' e]\<rparr>
     | Inr ghRes \<Rightarrow> (case up_json ghRes of
          Inl e \<Rightarrow> \<lparr>reply = res_json (JObj [(''error'', JStr ''Failed to fetch user'')]) (res_status 500 res0), store = s,
          trace = [Fetch (api_request ''https://api.github.com/user'' t), ConsoleError ''Error fetching GitHub user'' e]\<rparr>
        | Inr user \<Rightarrow> \<lparr>reply = res_json user res0, store = s, trace = [Fetch (api_request ''https://api.github.com/user'' t)]\<rparr>))"
  using assms
  by (simp add: getUser_def getUser_try_def Let_def split: sum.splits)

lemma invocation_handlers_cases:
  "f \<in> set invocation_handlers \<longleftrightarrow> f = listRepos \<or> f = getUser"
  by (auto simp add: invocation_handlers_def post_routes_def routes_def)

lemma authorization_of_api_request:
  "map_of (out_headers (api_request u t)) ''Authorization'' = Some (''token '' @ t)"
  by (simp add: api_request_def)

lemma invocation_store:
  "f \<in> set invocation_handlers \<Longrightarrow> store (f h req s) = s"
  by (auto simp add: invocation_handlers_cases listRepos_def getUser_def
      split: prod.splits sum.splits)

lemma invocation_authorization:
  assumes "f \<in> set invocation_handlers"
    and "truthy (githubAccessToken s)" and "ToString (githubAccessToken s) = Inr t"
  shows "authorizations (f h req s) = [Some (''token '' @ t)]"
  using assms
  by (auto simp add: invocation_handlers_cases invoke_listRepos invoke_getUser
      authorizations_def fetches_def authorization_of_api_request split: sum.splits)

lemma run_authorizations:
  assumes "truthy (githubAccessToken s)" and "ToString (githubAccessToken s) = Inr t"
  shows "set (map fst calls) \<subseteq> set invocation_handlers \<Longrightarrow>
         map authorizations (run calls s) = replicate (length calls) [Some (''token '' @ t)]"
proof (induction calls)
  case Nil
  show ?case by simp
next
  case (Cons c calls)
  obtain f h req where c: "c = (f, h, req)" by (cases c)
  from Cons.prems c have f: "f \<in> set invocation_handlers"
    and rest: "set (map fst calls) \<subseteq> set invocation_handlers" by simp_all
  have "store (f h req s) = s" using f by (rule invocation_store)
  moreover have "authorizations (f h req s) = [Some (''token '' @ t)]"
    using f assms by (rule invocation_authorization)
  ultimately show ?case using Cons.IH [OF rest] c by (simp add: Let_def)
qed

lemma run_unauthenticated:
  assumes "\<not> truthy (githubAccessToken s)"
  shows "set (map fst calls) \<subseteq> set invocation_handlers \<Longrightarrow>
         map (\<lambda>out. (statusCode (reply out), trace out)) (run calls s)
           = replicate (length calls) (401, [])"
proof (induction calls)
  case Nil
  show ?case by simp
next
  case (Cons c calls)
  obtain f h req where c: "c = (f, h, req)" by (cases c)
  from Cons.prems c have f: "f = listRepos \<or> f = getUser"
    and rest: "set (map fst calls) \<subseteq> set invocation_handlers"
    by (simp_all add: invocation_handlers_cases)
  from f assms have "f h req s =
     \<lparr>reply = res_json (JObj [(''error'', JStr ''GitHub OAuth required'')]) (res_status 401 res0),
      store = s, trace = []\<rparr>"
    by (auto simp add: listRepos_unauthenticated getUser_unauthenticated)
  then show ?case using Cons.IH [OF rest] c by (simp add: Let_def reply_json)
qed

lemma no_code_param: "map_of (req_query req) ''code'' = None \<Longrightarrow> \<not> has_code req"
  by (simp add: has_code_def own_prop_def)

lemma example_hosts:
  "configured (configured_host j)"
  "\<not> configured unconfigured_host"
  "fetch (configured_host j) rq = Inr \<lparr>up_status = 200, up_json = j\<rparr>"
  by (simp_all add: configured_def configured_host_def unconfigured_host_def env_var_def
      env_of_def fetch_answers_def)

lemma example_requests:
  "has_code (request_with_code c) = (c \<noteq> [])"
  "\<not> has_code plain_request"
  "map_of (req_query plain_request) ''code'' = None"
  by (simp_all add: has_code_def request_with_code_def plain_request_def own_prop_def)

lemma truthy_error_is_object:
  "get_prop data ''error'' = Inr err \<Longrightarrow> truthy err \<Longrightarrow> \<exists>kvs. data = JObj kvs"
  by (cases data) auto

lemma sse_payload_json:
  \<open>json_stringify sse_payload = Some ''{"message":"GitHub tools ready","tools":{"listRepos":{"description":"List the authenticated user's GitHub repositories","parameters":{"type":"object","properties":{},"required":[]}},"getUser":{"description":"Get the authenticated user's GitHub profile information","parameters":{"type":"object","properties":{},"required":[]}}}}''\<close>
  by (simp add: sse_payload_def sse_tools_def json_quote_def json_escape_def)

lemma root_payload_json:
  \<open>json_stringify root_payload = Some ''{"message":"GitHub tools ready","tools":{"listRepos":{"description":"List the authenticated user's GitHub repositories","parameters":{"type":"object","properties":{},"required":[]}},"getUser":{"description":"Get the authenticated user's GitHub profile information","parameters":{"type":"object","properties":{},"required":[]}}}}''\<close>
  by (simp add: root_payload_def root_tools_def json_quote_def json_escape_def)

lemma get_sse_reply:
  "reply (get_sse h req s) =
     \<lparr>statusCode = 200,
      headers = [(''Content-Type'', ''text/event-stream''), (''Cache-Control'', ''no-cache''),
                 (''Connection'', ''keep-alive'')],
      flushed = True,
      chunks = [sse_frame (json_stringify sse_payload)],
      finished = None\<rparr>"
  by (simp add: get_sse_def res_set_def res_flushHeaders_def res_write_def res0_def)

lemma get_root_reply:
  "reply (get_root h req s) =
     \<lparr>statusCode = 200,
      headers = [(''Content-Type'', ''text/event-stream''), (''Cache-Control'', ''no-cache''),
                 (''Connection'', ''keep-alive'')],
      flushed = True,
      chunks = [sse_frame (json_stringify root_payload)],
      finished = None\<rparr>"
  by (simp add: get_root_def res_set_def res_flushHeaders_def res_write_def res0_def)

lemma no_field_reads_undefined:
  "data \<noteq> JNull \<Longrightarrow> data \<noteq> JUndefined \<Longrightarrow> \<not> has_field data k \<Longrightarrow>
   get_prop data k = Inr JUndefined"
  by (cases data)
    (auto simp add: has_field_def own_prop_def image_iff split: option.splits dest!: map_of_SomeD)

lemma callback_no_error:
  assumes "has_code req" "configured h"
    and "fetch h (exchange_request h req) = Inr tokenRes"
    and "up_json tokenRes = Inr data"
    and "get_prop data ''error'' = Inr err" and "\<not> truthy err"
    and "get_prop data ''access_token'' = Inr tok"
  shows "callback h req s =
     \<lparr>reply = res_send ''GitHub OAuth success! You can close this tab.'' res0,
      store = s\<lparr>githubAccessToken := tok\<rparr>,
      trace = [Fetch (exchange_request h req),
               ConsoleLog ''GitHub OAuth successful, token acquired'']\<rparr>"
  using assms
  by (simp add: callback_exchange callback_try_def exchange_request_def Let_def)

lemma reply_json_text:
  "body_text (res_json v r) = Some (json_body v)"
  by (simp add: body_text_def res_json_def)

section \<open>The claims\<close>

text \<open>
  C1. A tool invocation (\<^verbatim>\<open>POST /listRepos\<close>, \<^verbatim>\<open>POST /getUser\<close>) that finds no
  credential in \<^verbatim>\<open>githubAccessToken\<close> (the initial \<^verbatim>\<open>null\<close>, or any other value
  that fails the truth test) answers 401 with the body
  \<^verbatim>\<open>{error: "GitHub OAuth required"}\<close>, has no effect at all (so it never calls
  \<^verbatim>\<open>fetch\<close>) and leaves the variable as it was.
\<close>

theorem invocation_without_credential:
  assumes "\<not> truthy (githubAccessToken s)"
  shows "statusCode (reply (listRepos h req s)) = 401
       \<and> finished (reply (listRepos h req s)) =
           Some (Json (JObj [(''error'', JStr ''GitHub OAuth required'')]))
       \<and> trace (listRepos h req s) = []
       \<and> store (listRepos h req s) = s
       \<and> statusCode (reply (getUser h req s)) = 401
       \<and> finished (reply (getUser h req s)) =
           Some (Json (JObj [(''error'', JStr ''GitHub OAuth required'')]))
       \<and> trace (getUser h req s) = []
       \<and> store (getUser h req s) = s"
  using assms
  by (simp add: listRepos_unauthenticated getUser_unauthenticated reply_json)

theorem invocation_without_credential_witness:
  "\<not> truthy (githubAccessToken initial_state)
   \<and> statusCode (reply (listRepos (configured_host (Inr (JArr []))) plain_request initial_state)) = 401
   \<and> trace (listRepos (configured_host (Inr (JArr []))) plain_request initial_state) = []
   \<and> store (getUser (configured_host (Inr (JArr []))) plain_request initial_state) = initial_state"
  using invocation_without_credential
          [of initial_state "configured_host (Inr (JArr []))" plain_request]
  by (simp add: initial_state_def)

text \<open>
  C2. The variable is a single slot and the last writer wins. Take two exchanges that
  succeed one after the other, the upstream answering the first with the access token
  \<open>T1\<close> and the second with the access token \<open>T2\<close> (a non-empty string). After the
  first the variable holds \<open>T1\<close>; after the second it holds \<open>T2\<close>; and in every
  run of tool invocations that follows, each invocation calls \<^verbatim>\<open>fetch\<close> exactly once,
  with the header \<^verbatim>\<open>Authorization: token T2\<close>, whatever the upstream answers.
\<close>

theorem last_exchange_wins:
  assumes "has_code req1" and "configured h1"
    and "fetch h1 (exchange_request h1 req1) = Inr tokenRes1"
    and "up_json tokenRes1 = Inr (JObj kvs1)"
    and "\<not> truthy (own_prop kvs1 ''error'')"
    and "own_prop kvs1 ''access_token'' = JStr T1"
    and "has_code req2" and "configured h2"
    and "fetch h2 (exchange_request h2 req2) = Inr tokenRes2"
    and "up_json tokenRes2 = Inr (JObj kvs2)"
    and "\<not> truthy (own_prop kvs2 ''error'')"
    and "own_prop kvs2 ''access_token'' = JStr T2"
    and "T2 \<noteq> []"
    and "set (map fst calls) \<subseteq> set invocation_handlers"
  shows "githubAccessToken (store (callback h1 req1 s0)) = JStr T1
       \<and> githubAccessToken (store (callback h2 req2 (store (callback h1 req1 s0)))) = JStr T2
       \<and> map authorizations (run calls (store (callback h2 req2 (store (callback h1 req1 s0)))))
           = replicate (length calls) [Some (''token '' @ T2)]"
proof -
  have first: "githubAccessToken (store (callback h1 req1 s0)) = JStr T1"
    using assms(6) by (simp add: callback_granted [OF assms(1-5)])
  have second: "githubAccessToken (store (callback h2 req2 s1)) = JStr T2" for s1
    using assms(12) by (simp add: callback_granted [OF assms(7-11)])
  have "truthy (githubAccessToken (store (callback h2 req2 (store (callback h1 req1 s0)))))"
    and "ToString (githubAccessToken (store (callback h2 req2 (store (callback h1 req1 s0)))))
           = Inr T2"
    using assms(13) by (simp_all add: second)
  from run_authorizations [OF this assms(14)] first second show ?thesis by simp
qed

theorem last_exchange_wins_witness:
  "githubAccessToken (store (callback
       (configured_host (Inr (JObj [(''access_token'', JStr ''gho_one'')])))
       (request_with_code ''c1'') initial_state)) = JStr ''gho_one''
   \<and> map authorizations
       (run [(listRepos, configured_host (Inr (JArr [])), plain_request),
             (getUser, configured_host (Inl SyntaxError), plain_request)]
         (store (callback (configured_host (Inr (JObj [(''access_token'', JStr ''gho_two'')])))
            (request_with_code ''c2'')
            (store (callback (configured_host (Inr (JObj [(''access_token'', JStr ''gho_one'')])))
               (request_with_code ''c1'') initial_state)))))
     = [[Some ''token gho_two''], [Some ''token gho_two'']]"
  using last_exchange_wins
    [of "request_with_code ''c1''"
        "configured_host (Inr (JObj [(''access_token'', JStr ''gho_one'')]))"
        "\<lparr>up_status = 200, up_json = Inr (JObj [(''access_token'', JStr ''gho_one'')])\<rparr>"
        "[(''access_token'', JStr ''gho_one'')]" "''gho_one''"
        "request_with_code ''c2''"
        "configured_host (Inr (JObj [(''access_token'', JStr ''gho_two'')]))"
        "\<lparr>up_status = 200, up_json = Inr (JObj [(''access_token'', JStr ''gho_two'')])\<rparr>"
        "[(''access_token'', JStr ''gho_two'')]" "''gho_two''"
        "[(listRepos, configured_host (Inr (JArr [])), plain_request),
          (getUser, configured_host (Inl SyntaxError), plain_request)]"
        initial_state]
  by (simp add: example_hosts example_requests own_prop_def invocation_handlers_cases)

text \<open>
  C3, as stated, fails. The handler tests \<^verbatim>\<open>if (data.error)\<close>, the truth of the
  field and not its presence. For the body
  \<^verbatim>\<open>{"error": false, "access_token": "gho_new"}\<close>, which carries an error field, the
  callback answers 200 with the success text and replaces the stored token
  \<^verbatim>\<open>gho_old\<close> by \<^verbatim>\<open>gho_new\<close>.
\<close>

theorem upstream_error_field_counterexample:
  "get_prop falsy_error_body ''error'' = Inr (JBool False)
   \<and> statusCode (reply (callback (configured_host (Inr falsy_error_body))
         (request_with_code ''abc'') \<lparr>githubAccessToken = JStr ''gho_old''\<rparr>)) = 200
   \<and> finished (reply (callback (configured_host (Inr falsy_error_body))
         (request_with_code ''abc'') \<lparr>githubAccessToken = JStr ''gho_old''\<rparr>))
       = Some (Text ''GitHub OAuth success! You can close this tab.'')
   \<and> githubAccessToken (store (callback (configured_host (Inr falsy_error_body))
         (request_with_code ''abc'') \<lparr>githubAccessToken = JStr ''gho_old''\<rparr>))
       = JStr ''gho_new''"
  by (simp add: falsy_error_body_def
        callback_granted [where tokenRes = "\<lparr>up_status = 200, up_json = Inr falsy_error_body\<rparr>"]
        example_hosts example_requests own_prop_def reply_send)

text \<open>
  C3, amended. When the body of the upstream token response is an object whose
  \<^verbatim>\<open>error\<close> field passes the truth test (a non-empty string, for one), the callback
  answers 400 with the body \<^verbatim>\<open>{error: X}\<close>, where \<open>X\<close> is the field
  \<^verbatim>\<open>error_description\<close> when that passes the truth test and the field \<^verbatim>\<open>error\<close>
  otherwise, and \<^verbatim>\<open>githubAccessToken\<close> is as it was before the call. By
  \<open>truthy_error_is_object\<close> only an object can have such a field.
\<close>

theorem upstream_error_rejected:
  assumes "has_code req" and "configured h"
    and "fetch h (exchange_request h req) = Inr tokenRes"
    and "up_json tokenRes = Inr (JObj kvs)"
    and "truthy (own_prop kvs ''error'')"
  shows "statusCode (reply (callback h req s)) = 400
       \<and> finished (reply (callback h req s)) =
           Some (Json (JObj [(''error'',
             if truthy (own_prop kvs ''error_description'')
             then own_prop kvs ''error_description'' else own_prop kvs ''error'')]))
       \<and> store (callback h req s) = s"
  by (simp add: callback_upstream_error [OF assms] reply_json js_or_def)

theorem upstream_error_rejected_witness:
  "has_code (request_with_code ''abc'')
   \<and> configured (configured_host (Inr (JObj [(''error'', JStr ''access_denied'')])))
   \<and> truthy (own_prop [(''error'', JStr ''access_denied'')] ''error'')
   \<and> statusCode (reply (callback (configured_host (Inr (JObj [(''error'', JStr ''access_denied'')])))
         (request_with_code ''abc'') \<lparr>githubAccessToken = JStr ''gho_old''\<rparr>)) = 400
   \<and> finished (reply (callback (configured_host (Inr (JObj [(''error'', JStr ''access_denied'')])))
         (request_with_code ''abc'') \<lparr>githubAccessToken = JStr ''gho_old''\<rparr>))
       = Some (Json (JObj [(''error'', JStr ''access_denied'')]))
   \<and> store (callback (configured_host (Inr (JObj [(''error'', JStr ''access_denied'')])))
         (request_with_code ''abc'') \<lparr>githubAccessToken = JStr ''gho_old''\<rparr>)
       = \<lparr>githubAccessToken = JStr ''gho_old''\<rparr>"
  using upstream_error_rejected
    [of "request_with_code ''abc''"
        "configured_host (Inr (JObj [(''error'', JStr ''access_denied'')]))"
        "\<lparr>up_status = 200, up_json = Inr (JObj [(''error'', JStr ''access_denied'')])\<rparr>"
        "[(''error'', JStr ''access_denied'')]"
        "\<lparr>githubAccessToken = JStr ''gho_old''\<rparr>"]
  by (simp add: example_hosts example_requests own_prop_def)

text \<open>
  C4. \<^verbatim>\<open>GET /sse\<close> and \<^verbatim>\<open>GET /\<close> give the same response, whatever the
  surroundings, the request and the state of each: the same status, the same three
  headers, flushed before the body, and the same single chunk. The two payloads
  serialise to the same JSON text, written out below, and the chunk is that text
  between \<^verbatim>\<open>data: \<close> and two line feeds. Neither handler ends the response.
\<close>

theorem discovery_entry_points_identical:
  \<open>reply (get_sse h req s) = reply (get_root h' req' s')
   \<and> sse_payload = root_payload
   \<and> json_stringify sse_payload = json_stringify root_payload
   \<and> json_stringify sse_payload = Some ''{"message":"GitHub tools ready","tools":{"listRepos":{"description":"List the authenticated user's GitHub repositories","parameters":{"type":"object","properties":{},"required":[]}},"getUser":{"description":"Get the authenticated user's GitHub profile information","parameters":{"type":"object","properties":{},"required":[]}}}}''
   \<and> headers (reply (get_sse h req s)) = headers (reply (get_root h' req' s'))
   \<and> headers (reply (get_sse h req s)) =
        [(''Content-Type'', ''text/event-stream''), (''Cache-Control'', ''no-cache''),
         (''Connection'', ''keep-alive'')]
   \<and> (\<exists>j. json_stringify sse_payload = Some j
          \<and> chunks (reply (get_sse h req s)) = [''data: '' @ j @ [CHR 0x0A, CHR 0x0A]]
          \<and> chunks (reply (get_root h' req' s')) = [''data: '' @ j @ [CHR 0x0A, CHR 0x0A]])\<close>
  by (simp add: get_sse_reply get_root_reply sse_payload_json root_payload_json sse_frame_def)
    (simp add: sse_payload_def root_payload_def sse_tools_def root_tools_def)

theorem discovery_entry_points_identical_witness:
  "reply (get_sse unconfigured_host plain_request initial_state)
     = reply (get_root (configured_host (Inr JNull)) (request_with_code ''abc'')
         \<lparr>githubAccessToken = JStr ''gho_abc''\<rparr>)"
  using discovery_entry_points_identical
    [of unconfigured_host plain_request initial_state "configured_host (Inr JNull)"
        "request_with_code ''abc''" "\<lparr>githubAccessToken = JStr ''gho_abc''\<rparr>"]
  by simp

text \<open>
  C5. The tool names in the payload of either discovery handler, each behind a slash,
  are exactly the paths registered with \<^verbatim>\<open>app.post\<close>: \<^verbatim>\<open>/listRepos\<close> and
  \<^verbatim>\<open>/getUser\<close>, handled by \<open>listRepos\<close> and \<open>getUser\<close>.
\<close>

theorem advertised_tools_are_post_routes:
  "set (map ((@) ''/'') (advertised_tools sse_payload)) = set (map fst post_routes)
   \<and> set (map ((@) ''/'') (advertised_tools root_payload)) = set (map fst post_routes)
   \<and> map ((@) ''/'') (advertised_tools sse_payload) = [''/listRepos'', ''/getUser'']
   \<and> map snd post_routes = [listRepos, getUser]"
  by (simp add: advertised_tools_def sse_payload_def sse_tools_def root_payload_def
      root_tools_def own_prop_def post_routes_def routes_def)

text \<open>
  C6, as stated, fails. The handlers do not pass the upstream body on; they parse it
  and hand the parsed value to \<^verbatim>\<open>res.json\<close>, which writes it out again with
  \<^verbatim>\<open>JSON.stringify\<close>. The upstream bodies \<^verbatim>\<open>[1e400]\<close> and \<^verbatim>\<open>[null]\<close> parse to
  different values, and \<^verbatim>\<open>POST /listRepos\<close> answers both with the same text
  \<^verbatim>\<open>[null]\<close>: for the first, the response is not the upstream body.
\<close>

theorem upstream_json_verbatim_counterexample:
  \<open>overflow_list_example \<noteq> null_list_example
   \<and> finished (reply (listRepos (configured_host (Inr overflow_list_example)) plain_request
         \<lparr>githubAccessToken = JStr ''gho_abc''\<rparr>)) = Some (Json (JArr [JNum ''Infinity'']))
   \<and> body_text (reply (listRepos (configured_host (Inr overflow_list_example)) plain_request
         \<lparr>githubAccessToken = JStr ''gho_abc''\<rparr>)) = Some ''[null]''
   \<and> body_text (reply (listRepos (configured_host (Inr null_list_example)) plain_request
         \<lparr>githubAccessToken = JStr ''gho_abc''\<rparr>)) = Some ''[null]''\<close>
  by (simp add: invoke_listRepos [where t = "''gho_abc''"] example_hosts
      overflow_list_example_def null_list_example_def body_text_def json_body_def
      res_json_def res0_def)

text \<open>
  C6, amended. An invocation that finds a credential (a value that passes the truth
  test and has the string conversion \<open>t\<close>), and whose call of \<^verbatim>\<open>fetch\<close> resolves to
  a response with a body that parses to the JSON value \<open>v\<close>, answers with status 200
  and hands exactly \<open>v\<close> to \<^verbatim>\<open>res.json\<close>: the parsed value is not translated,
  filtered or cut into pages. The body of the response is the text
  \<^verbatim>\<open>JSON.stringify(v)\<close> of the parsed value, not the text the upstream sent; for the
  upstream body \<^verbatim>\<open>[{"id":1,"name":"repo-a"}]\<close> it is that same text. The status the
  upstream answered with plays no part.
\<close>

theorem upstream_json_relayed:
  assumes "truthy (githubAccessToken s)" and "ToString (githubAccessToken s) = Inr t"
    and "up_json ghRes = Inr v"
  shows "(fetch h (api_request ''https://api.github.com/user/repos'' t) = Inr ghRes \<longrightarrow>
            reply (listRepos h req s) = res_json v res0
          \<and> statusCode (reply (listRepos h req s)) = 200
          \<and> finished (reply (listRepos h req s)) = Some (Json v)
          \<and> body_text (reply (listRepos h req s)) = Some (json_body v))
       \<and> (fetch h (api_request ''https://api.github.com/user'' t) = Inr ghRes \<longrightarrow>
            reply (getUser h req s) = res_json v res0
          \<and> statusCode (reply (getUser h req s)) = 200
          \<and> finished (reply (getUser h req s)) = Some (Json v)
          \<and> body_text (reply (getUser h req s)) = Some (json_body v))"
  using assms(3)
  by (simp add: invoke_listRepos [OF assms(1,2)] invoke_getUser [OF assms(1,2)]
      reply_json_text) (simp add: res_json_def res0_def)

theorem upstream_json_relayed_witness:
  \<open>truthy (githubAccessToken \<lparr>githubAccessToken = JStr ''gho_abc''\<rparr>)
   \<and> statusCode (reply (listRepos (configured_host (Inr repo_list_example)) plain_request
         \<lparr>githubAccessToken = JStr ''gho_abc''\<rparr>)) = 200
   \<and> finished (reply (listRepos (configured_host (Inr repo_list_example)) plain_request
         \<lparr>githubAccessToken = JStr ''gho_abc''\<rparr>))
       = Some (Json (JArr [JObj [(''id'', JNum ''1''), (''name'', JStr ''repo-a'')]]))
   \<and> body_text (reply (listRepos (configured_host (Inr repo_list_example)) plain_request
         \<lparr>githubAccessToken = JStr ''gho_abc''\<rparr>))
       = Some ''[{"id":1,"name":"repo-a"}]''
   \<and> finished (reply (getUser (configured_host (Inr repo_list_example)) plain_request
         \<lparr>githubAccessToken = JStr ''gho_abc''\<rparr>))
       = Some (Json (JArr [JObj [(''id'', JNum ''1''), (''name'', JStr ''repo-a'')]]))\<close>
  using upstream_json_relayed
    [of "\<lparr>githubAccessToken = JStr ''gho_abc''\<rparr>" "''gho_abc''"
        "\<lparr>up_status = 200, up_json = Inr repo_list_example\<rparr>" repo_list_example
        "configured_host (Inr repo_list_example)" plain_request]
  by (simp add: example_hosts repo_list_example_def res_json_def res0_def body_text_def
      json_body_def json_quote_def json_escape_def)

text \<open>
  C7. A callback request with no \<^verbatim>\<open>code\<close> query parameter is answered 400 with the
  text \<^verbatim>\<open>Missing OAuth code\<close>; the handler has no effect, so \<^verbatim>\<open>fetch\<close> is called
  zero times, and the state is unchanged.
\<close>

theorem callback_without_code:
  assumes "map_of (req_query req) ''code'' = None"
  shows "statusCode (reply (callback h req s)) = 400
       \<and> finished (reply (callback h req s)) = Some (Text ''Missing OAuth code'')
       \<and> trace (callback h req s) = []
       \<and> fetches (trace (callback h req s)) = []
       \<and> store (callback h req s) = s"
  using no_code_param [OF assms]
  by (simp add: callback_missing_code reply_send fetches_def)

theorem callback_without_code_witness:
  "map_of (req_query plain_request) ''code'' = None
   \<and> statusCode (reply (callback (configured_host (Inr (JObj []))) plain_request initial_state)) = 400
   \<and> fetches (trace (callback (configured_host (Inr (JObj []))) plain_request initial_state)) = []"
  using callback_without_code [of plain_request "configured_host (Inr (JObj []))" initial_state]
  by (simp add: example_requests fetches_def)

text \<open>
  C8, as stated, fails. The body \<^verbatim>\<open>null\<close> parses as JSON and has neither an
  \<^verbatim>\<open>error\<close> nor an \<^verbatim>\<open>access_token\<close> field, but the read \<^verbatim>\<open>data.error\<close> throws on
  it: the callback answers 500 with \<^verbatim>\<open>Failed to retrieve access token\<close>, the stored
  token \<^verbatim>\<open>gho_old\<close> stays, and a following \<^verbatim>\<open>POST /listRepos\<close> is answered 200.
\<close>

theorem null_body_counterexample:
  "\<not> has_field JNull ''error'' \<and> \<not> has_field JNull ''access_token''
   \<and> statusCode (reply (callback (configured_host (Inr JNull)) (request_with_code ''abc'')
         \<lparr>githubAccessToken = JStr ''gho_old''\<rparr>)) = 500
   \<and> finished (reply (callback (configured_host (Inr JNull)) (request_with_code ''abc'')
         \<lparr>githubAccessToken = JStr ''gho_old''\<rparr>))
       = Some (Text ''Failed to retrieve access token'')
   \<and> githubAccessToken (store (callback (configured_host (Inr JNull)) (request_with_code ''abc'')
         \<lparr>githubAccessToken = JStr ''gho_old''\<rparr>)) = JStr ''gho_old''
   \<and> statusCode (reply (listRepos (configured_host (Inr (JArr []))) plain_request
         (store (callback (configured_host (Inr JNull)) (request_with_code ''abc'')
            \<lparr>githubAccessToken = JStr ''gho_old''\<rparr>)))) = 200"
  by (simp add: callback_null_body [where tokenRes = "\<lparr>up_status = 200, up_json = Inr JNull\<rparr>"]
      example_hosts example_requests has_field_def
      invoke_listRepos [where t = "''gho_old''"] res_json_def res_send_def res_status_def
      res0_def)

text \<open>
  C8, amended. When the exchange is made and the upstream body parses to a JSON value
  on which the reads \<^verbatim>\<open>data.error\<close> and \<^verbatim>\<open>data.access_token\<close> both give
  \<^verbatim>\<open>undefined\<close> (by \<open>no_field_reads_undefined\<close> every value other than \<^verbatim>\<open>null\<close>
  that has neither field: such an object, and any array, string, number or boolean),
  the callback answers 200 with the success text and stores \<^verbatim>\<open>undefined\<close>, whatever
  was stored before; that value fails the truth test, and every invocation in any run
  that follows answers 401 and has no effect.
\<close>

theorem exchange_without_token_clears_credential:
  assumes "has_code req" and "configured h"
    and "fetch h (exchange_request h req) = Inr tokenRes"
    and "up_json tokenRes = Inr data"
    and "get_prop data ''error'' = Inr JUndefined"
    and "get_prop data ''access_token'' = Inr JUndefined"
    and "set (map fst calls) \<subseteq> set invocation_handlers"
  shows "statusCode (reply (callback h req s)) = 200
       \<and> finished (reply (callback h req s)) =
           Some (Text ''GitHub OAuth success! You can close this tab.'')
       \<and> githubAccessToken (store (callback h req s)) = JUndefined
       \<and> \<not> truthy (githubAccessToken (store (callback h req s)))
       \<and> map (\<lambda>out. (statusCode (reply out), trace out)) (run calls (store (callback h req s)))
           = replicate (length calls) (401, [])"
proof -
  have "\<not> truthy JUndefined" by simp
  from callback_no_error [OF assms(1-5) this assms(6), of s]
  have cb: "callback h req s =
     \<lparr>reply = res_send ''GitHub OAuth success! You can close this tab.'' res0,
      store = s\<lparr>githubAccessToken := JUndefined\<rparr>,
      trace = [Fetch (exchange_request h req),
               ConsoleLog ''GitHub OAuth successful, token acquired'']\<rparr>" .
  have "\<not> truthy (githubAccessToken (store (callback h req s)))" by (simp add: cb)
  from run_unauthenticated [OF this assms(7)] show ?thesis
    by (simp add: cb reply_send)
qed

theorem exchange_without_token_clears_credential_witness:
  "has_code (request_with_code ''abc'')
   \<and> configured (configured_host (Inr (JObj [(''scope'', JStr ''repo'')])))
   \<and> get_prop (JObj [(''scope'', JStr ''repo'')]) ''error'' = Inr JUndefined
   \<and> get_prop (JObj [(''scope'', JStr ''repo'')]) ''access_token'' = Inr JUndefined
   \<and> truthy (githubAccessToken \<lparr>githubAccessToken = JStr ''gho_old''\<rparr>)
   \<and> statusCode (reply (callback (configured_host (Inr (JObj [(''scope'', JStr ''repo'')])))
         (request_with_code ''abc'') \<lparr>githubAccessToken = JStr ''gho_old''\<rparr>)) = 200
   \<and> githubAccessToken (store (callback (configured_host (Inr (JObj [(''scope'', JStr ''repo'')])))
         (request_with_code ''abc'') \<lparr>githubAccessToken = JStr ''gho_old''\<rparr>)) = JUndefined
   \<and> map (\<lambda>out. (statusCode (reply out), trace out))
        (run [(listRepos, configured_host (Inr (JArr [])), plain_request),
              (getUser, configured_host (Inr (JObj [])), plain_request)]
          (store (callback (configured_host (Inr (JObj [(''scope'', JStr ''repo'')])))
             (request_with_code ''abc'') \<lparr>githubAccessToken = JStr ''gho_old''\<rparr>)))
       = [(401, []), (401, [])]
   \<and> get_prop (JStr ''oops'') ''error'' = Inr JUndefined
   \<and> githubAccessToken (store (callback (configured_host (Inr (JStr ''oops'')))
         (request_with_code ''abc'') \<lparr>githubAccessToken = JStr ''gho_old''\<rparr>)) = JUndefined"
  using exchange_without_token_clears_credential
    [of "request_with_code ''abc''"
        "configured_host (Inr (JObj [(''scope'', JStr ''repo'')]))"
        "\<lparr>up_status = 200, up_json = Inr (JObj [(''scope'', JStr ''repo'')])\<rparr>"
        "JObj [(''scope'', JStr ''repo'')]"
        "[(listRepos, configured_host (Inr (JArr [])), plain_request),
          (getUser, configured_host (Inr (JObj [])), plain_request)]"
        "\<lparr>githubAccessToken = JStr ''gho_old''\<rparr>"]
    exchange_without_token_clears_credential
    [of "request_with_code ''abc''"
        "configured_host (Inr (JStr ''oops''))"
        "\<lparr>up_status = 200, up_json = Inr (JStr ''oops'')\<rparr>"
        "JStr ''oops''" "[]"
        "\<lparr>githubAccessToken = JStr ''gho_old''\<rparr>"]
  by (simp add: example_hosts example_requests invocation_handlers_cases own_prop_def)

text \<open>
  C9. The response of \<^verbatim>\<open>GET /sse\<close> does not depend on the state: for any two values
  of \<^verbatim>\<open>githubAccessToken\<close> the replies (status, headers, chunks) are equal, and so
  are the effects (there are none).
\<close>

theorem discovery_ignores_credential:
  "reply (get_sse h req s1) = reply (get_sse h req s2)
   \<and> headers (reply (get_sse h req s1)) = headers (reply (get_sse h req s2))
   \<and> chunks (reply (get_sse h req s1)) = chunks (reply (get_sse h req s2))
   \<and> trace (get_sse h req s1) = trace (get_sse h req s2)"
  by (simp add: get_sse_reply) (simp add: get_sse_def)

theorem discovery_ignores_credential_witness:
  "reply (get_sse unconfigured_host plain_request initial_state)
     = reply (get_sse unconfigured_host plain_request \<lparr>githubAccessToken = JStr ''gho_abc''\<rparr>)
   \<and> githubAccessToken initial_state \<noteq> JStr ''gho_abc''"
  using discovery_ignores_credential
    [of unconfigured_host plain_request initial_state "\<lparr>githubAccessToken = JStr ''gho_abc''\<rparr>"]
  by (simp add: initial_state_def)

text \<open>
  C10. On the callback route the test of \<^verbatim>\<open>code\<close> comes before the test of the
  configuration: a request whose \<^verbatim>\<open>code\<close> is missing (or empty) is answered 400
  \<^verbatim>\<open>Missing OAuth code\<close> whatever the environment holds, and the answer is the 500
  \<^verbatim>\<open>GitHub client credentials not configured\<close> exactly when a \<^verbatim>\<open>code\<close> is there
  and the client identifier or the client secret is not.
\<close>

theorem missing_code_checked_first:
  "(\<not> has_code req \<longrightarrow>
      reply (callback h req s) = res_send ''Missing OAuth code'' (res_status 400 res0))
   \<and> (reply (callback h req s) =
         res_send ''GitHub client credentials not configured'' (res_status 500 res0)
       \<longleftrightarrow> has_code req \<and> \<not> configured h)"
proof (cases "has_code req")
  case False
  then show ?thesis
    by (simp add: callback_missing_code res_send_def res_status_def res0_def)
next
  case code: True
  show ?thesis
  proof (cases "configured h")
    case False
    with code show ?thesis by (simp add: callback_unconfigured)
  next
    case True
    with code show ?thesis
      by (auto simp add: callback_exchange callback_try_def Let_def res_send_def res_json_def
          res_status_def res0_def split: sum.splits)
  qed
qed

theorem missing_code_checked_first_witness:
  "\<not> has_code plain_request \<and> \<not> configured unconfigured_host
   \<and> reply (callback unconfigured_host plain_request initial_state) =
       res_send ''Missing OAuth code'' (res_status 400 res0)
   \<and> statusCode (reply (callback unconfigured_host plain_request initial_state)) = 400
   \<and> has_code (request_with_code ''abc'')
   \<and> reply (callback unconfigured_host (request_with_code ''abc'') initial_state) =
       res_send ''GitHub client credentials not configured'' (res_status 500 res0)"
  using missing_code_checked_first [of plain_request unconfigured_host initial_state]
    missing_code_checked_first [of "request_with_code ''abc''" unconfigured_host initial_state]
  by (simp add: example_requests example_hosts reply_send)

end
